theory Spec2Isabelle
  imports Main "HOL-Library.Word"
begin

section \<open>Python strings and integers used by the request handler\<close>

text \<open>
  Strings are character lists. The handler only slices, splits and concatenates them, so
  the operations below follow Python's definitions of \<^verbatim>\<open>s[i:j]\<close>,
  \<^verbatim>\<open>s.split(c)\<close>, \<^verbatim>\<open>s.rsplit(c, 1)\<close> and \<^verbatim>\<open>str(n)\<close>.
\<close>

definition slice_index :: "int \<Rightarrow> nat \<Rightarrow> nat" where
  \<comment> \<open>A slice bound: a negative bound counts from the end, and every bound is clamped
      to the range from 0 to the length.\<close>
  "slice_index i n = (if i < 0 then nat (max (i + int n) 0) else min (nat i) n)"

definition py_slice :: "'a list \<Rightarrow> int \<Rightarrow> int \<Rightarrow> 'a list" where
  \<comment> \<open>\<^verbatim>\<open>s[i:j]\<close>\<close>
  "py_slice s i j =
     (let n = length s; lo = slice_index i n; hi = slice_index j n
      in take (hi - lo) (drop lo s))"

primrec split_str :: "char \<Rightarrow> string \<Rightarrow> string list" where
  \<comment> \<open>\<^verbatim>\<open>s.split(c)\<close> for a one-character separator: never empty.\<close>
  "split_str c [] = [[]]"
| "split_str c (x # xs) =
     (if x = c then [] # split_str c xs
      else (case split_str c xs of
              [] \<Rightarrow> [[x]]
            | y # ys \<Rightarrow> (x # y) # ys))"

definition rsplit1 :: "char \<Rightarrow> string \<Rightarrow> string list" where
  \<comment> \<open>\<^verbatim>\<open>s.rsplit(c, 1)\<close>: split once, at the last occurrence of the separator.\<close>
  "rsplit1 c s =
     (if c \<in> set s
      then [rev (tl (dropWhile (\<lambda>x. x \<noteq> c) (rev s))), rev (takeWhile (\<lambda>x. x \<noteq> c) (rev s))]
      else [s])"

definition digit_char :: "nat \<Rightarrow> char" where
  "digit_char d = ''0123456789'' ! d"

fun str_nat :: "nat \<Rightarrow> string" where
  "str_nat n = (if n < 10 then [digit_char n] else str_nat (n div 10) @ [digit_char (n mod 10)])"

declare str_nat.simps [simp del]

definition str_int :: "int \<Rightarrow> string" where
  \<comment> \<open>\<^verbatim>\<open>str(n)\<close> for an integer.\<close>
  "str_int i = (if i < 0 then CHR ''-'' # str_nat (nat (- i)) else str_nat (nat i))"

definition is_digit :: "char \<Rightarrow> bool" where
  "is_digit c = (c \<in> set ''0123456789'')"

section \<open>Cache file names\<close>

definition identifier_tail :: "string \<Rightarrow> string" where
  \<comment> \<open>\<^verbatim>\<open>[-16:-1]\<close>, the slice the handler takes of every source identifier.\<close>
  "identifier_tail s = py_slice s (- 16) (- 1)"

definition url_tail :: "string \<Rightarrow> string" where
  \<comment> \<open>\<^verbatim>\<open>url.split('/')[-1][-16:-1]\<close>\<close>
  "url_tail url = identifier_tail (last (split_str CHR ''/'' url))"

definition strip_extension :: "string \<Rightarrow> string" where
  \<comment> \<open>\<^verbatim>\<open>filename.rsplit('.', 1)[0]\<close>\<close>
  "strip_extension filename = hd (rsplit1 CHR ''.'' filename)"

definition modifier_filename :: "string \<Rightarrow> bool \<Rightarrow> int \<Rightarrow> int \<Rightarrow> string" where
  \<comment> \<open>The statements after the comment \<^verbatim>\<open># modifier file names\<close>, the first apart:
      each \<^verbatim>\<open>filename += ...\<close> is one binding.\<close>
  "modifier_filename filename overlay margin upscale =
     (let f1 = (if overlay then filename @ ''o'' else filename);
          f2 = (if margin > 0 then f1 @ (''m'' @ str_int margin) else f1);
          f3 = (if upscale > 1 then f2 @ (''u'' @ str_int upscale) else f2)
      in f3 @ ''.png'')"

definition cache_filename :: "string \<Rightarrow> bool \<Rightarrow> int \<Rightarrow> int \<Rightarrow> string" where
  \<comment> \<open>From the sliced identifier to the file name.\<close>
  "cache_filename sliced overlay margin upscale =
     modifier_filename (strip_extension sliced) overlay margin upscale"

section \<open>Images\<close>

text \<open>
  An image of the imaging library: its mode, its size and its pixels, row by row. Every
  pixel is held as the RGBA value it has once converted to RGBA, so a conversion of the
  mode leaves the rows as they are.
\<close>

type_synonym rgba = "8 word \<times> 8 word \<times> 8 word \<times> 8 word"

type_synonym bytes = "8 word list"

datatype mode = L | LA | P | RGB | RGBA

record image =
  mode :: mode
  width :: nat
  height :: nat
  rows :: "rgba list list"

definition wf_image :: "image \<Rightarrow> bool" where
  "wf_image im =
     (length (rows im) = height im \<and> list_all (\<lambda>r. length r = width im) (rows im))"

definition getpixel :: "image \<Rightarrow> nat \<times> nat \<Rightarrow> rgba option" where
  \<comment> \<open>\<^verbatim>\<open>im.getpixel((x, y))\<close> of the converted image; None where it raises IndexError.\<close>
  "getpixel im xy =
     (case xy of (x, y) \<Rightarrow>
        if x < width im \<and> y < height im then Some (rows im ! y ! x) else None)"

definition convert :: "image \<Rightarrow> mode \<Rightarrow> image" where
  "convert im md = im\<lparr>mode := md\<rparr>"

definition Image_new :: "mode \<Rightarrow> nat \<times> nat \<Rightarrow> image" where
  \<comment> \<open>\<^verbatim>\<open>Image.new(mode, size)\<close>: the default colour is 0 in every band.\<close>
  "Image_new md sz =
     (case sz of (w, h) \<Rightarrow>
        \<lparr>mode = md, width = w, height = h, rows = replicate h (replicate w (0, 0, 0, 0))\<rparr>)"

definition paste :: "image \<Rightarrow> image \<Rightarrow> int \<times> int \<Rightarrow> image" where
  \<comment> \<open>\<^verbatim>\<open>dst.paste(src, (ox, oy))\<close> with no mask: the pixels of the box are replaced by
      the source's, converted to the destination's mode; the box is clipped to the
      destination.\<close>
  "paste dst src box =
     (case box of (ox, oy) \<Rightarrow>
        dst\<lparr>rows :=
          map (\<lambda>y. map (\<lambda>x.
                 if ox \<le> int x \<and> int x < ox + int (width src) \<and>
                    oy \<le> int y \<and> int y < oy + int (height src)
                 then rows src ! nat (int y - oy) ! nat (int x - ox)
                 else rows dst ! y ! x) [0..<width dst]) [0..<height dst]\<rparr>)"

definition nearest_coord :: "nat \<Rightarrow> nat \<Rightarrow> nat \<Rightarrow> nat" where
  \<comment> \<open>The source coordinate of output coordinate i: the floor of (i + 1/2) * n_in / n_out.\<close>
  "nearest_coord i n_out n_in = ((2 * i + 1) * n_in) div (2 * n_out)"

definition resize_nearest :: "image \<Rightarrow> nat \<times> nat \<Rightarrow> image" where
  \<comment> \<open>\<^verbatim>\<open>im.resize(size, Image.NEAREST)\<close>\<close>
  "resize_nearest im sz =
     (case sz of (w, h) \<Rightarrow>
        \<lparr>mode = mode im, width = w, height = h,
         rows = map (\<lambda>y. map (\<lambda>x.
                  rows im ! nearest_coord y h (height im) ! nearest_coord x w (width im))
                  [0..<w]) [0..<h]\<rparr>)"

section \<open>Exceptions, the outside world and the cache directory\<close>

datatype py_exn =
  ValueError | BinasciiError | JSONDecodeError | UnidentifiedImageError
  | OSError | FileNotFoundError | FileExistsError | KeyError

datatype exn = Lib py_exn | ImageSizeError | UrlError | ArgumentError | UnknownPlayerError

fun is_ValueError :: "py_exn \<Rightarrow> bool" where
  \<comment> \<open>What \<^verbatim>\<open>except ValueError\<close> catches: the class and its subclasses.\<close>
  "is_ValueError ValueError = True"
| "is_ValueError BinasciiError = True"
| "is_ValueError JSONDecodeError = True"
| "is_ValueError _ = False"

text \<open>
  What the handler reads from outside: the result of \<^verbatim>\<open>skin_url_from_player\<close> for each
  name (two profile lookups over the network), of opening a URL, of opening bytes as an
  image and of decoding base64 text. The library functions raise library exceptions only.
  \<^verbatim>\<open>old_to_new_skin\<close> comes from the module \<^verbatim>\<open>renders\<close>.
\<close>

record env =
  skin_url_from_player :: "string \<Rightarrow> exn + (string \<times> bool)"
  urlopen :: "string \<Rightarrow> py_exn + bytes"
  Image_open :: "bytes \<Rightarrow> py_exn + image"
  b64decode :: "string \<Rightarrow> py_exn + bytes"
  old_to_new_skin :: "image \<Rightarrow> image"

text \<open>
  The file system under the cache root: paths are lists of components; \<open>render_calls\<close>
  records every call of the render function, with its arguments.
\<close>

record state =
  dirs :: "string list set"
  files :: "string list \<rightharpoonup> image"
  render_calls :: "(image \<times> bool option \<times> bool) list"

definition path_parts :: "string \<Rightarrow> string list" where
  "path_parts s = filter (\<lambda>p. p \<noteq> [] \<and> p \<noteq> ''.'') (split_str CHR ''/'' s)"

definition joinpath :: "string list \<Rightarrow> string \<Rightarrow> string list" where
  \<comment> \<open>\<^verbatim>\<open>base / s\<close> of pathlib on POSIX: an absolute right operand replaces the base.\<close>
  "joinpath base s =
     (case s of
        [] \<Rightarrow> base
      | c # _ \<Rightarrow> if c = CHR ''/'' then path_parts s else base @ path_parts s)"

definition image_save :: "state \<Rightarrow> string list \<Rightarrow> image \<Rightarrow> py_exn + state" where
  "image_save st p im =
     (if butlast p \<in> dirs st then Inr (st\<lparr>files := (files st)(p \<mapsto> im)\<rparr>)
      else Inl FileNotFoundError)"

definition mkdir :: "state \<Rightarrow> string list \<Rightarrow> py_exn + state" where
  "mkdir st p =
     (if p \<in> dirs st then Inl FileExistsError
      else if butlast p \<notin> dirs st then Inl FileNotFoundError
      else Inr (st\<lparr>dirs := insert p (dirs st)\<rparr>))"

section \<open>The skin normalizer\<close>

definition skin_from_url :: "env \<Rightarrow> string \<Rightarrow> exn + image" where
  "skin_from_url env skin_url =
     (case urlopen env skin_url of
        Inl e \<Rightarrow> if is_ValueError e then Inl UrlError else Inl (Lib e)
      | Inr file \<Rightarrow>
          (case Image_open env file of
             Inl e \<Rightarrow> if e = UnidentifiedImageError then Inl UrlError else Inl (Lib e)
           | Inr opened \<Rightarrow>
               (let img = convert opened RGBA;
                    img = (if (width img, height img) = (64, 32)
                           then old_to_new_skin env img else img)
                in if (width img, height img) \<noteq> (64, 64) then Inl ImageSizeError
                   else Inr img)))"

section \<open>The request handler\<close>

datatype response = HTTPException int string | StreamingResponse image string

datatype 'a step = Continue 'a | Return response | Raise exn

datatype source = FromPlayer string bool | FromUrl string | FromBase64 string

definition truthy :: "string option \<Rightarrow> string option" where
  \<comment> \<open>The value of an optional text parameter when \<^verbatim>\<open>if v:\<close> holds: neither None nor
      the empty string.\<close>
  "truthy v = (case v of None \<Rightarrow> None | Some s \<Rightarrow> if s = [] then None else Some s)"

definition select_source ::
  "env \<Rightarrow> string option \<Rightarrow> string option \<Rightarrow> string option \<Rightarrow> (string \<times> source) step" where
  \<comment> \<open>From \<^verbatim>\<open>if player:\<close> to the last \<^verbatim>\<open>else\<close> of the first chain: the sliced
      identifier, and the branch taken with what it bound.\<close>
  "select_source env player skin_url skin_base64 =
     (case truthy player of
        Some p \<Rightarrow>
          (case skin_url_from_player env p of
             Inr (url, pot_slim) \<Rightarrow> Continue (url_tail url, FromPlayer url pot_slim)
           | Inl e \<Rightarrow>
               if e = UnknownPlayerError then Return (HTTPException 404 ''Unknown player'')
               else Raise e)
      | None \<Rightarrow>
          (case truthy skin_url of
             Some u \<Rightarrow> Continue (url_tail u, FromUrl u)
           | None \<Rightarrow>
               (case truthy skin_base64 of
                  Some b \<Rightarrow> Continue (identifier_tail b, FromBase64 b)
                | None \<Rightarrow>
                    Return (HTTPException 404
                      ''You must specify a Player Name, Skin URL or Skin File.''))))"

definition decode_payload :: "env \<Rightarrow> string \<Rightarrow> py_exn + bytes" where
  \<comment> \<open>The first \<^verbatim>\<open>try\<close> of the base64 branch: decode with a padding character
      appended, and on \<^verbatim>\<open>binascii.Error\<close> decode the payload as it is.\<close>
  "decode_payload env b64 =
     (case b64decode env (b64 @ ''='') of
        Inr b \<Rightarrow> Inr b
      | Inl e \<Rightarrow> if e = BinasciiError then b64decode env b64 else Inl e)"

definition fetch_skin :: "env \<Rightarrow> source \<Rightarrow> bool option \<Rightarrow> (image \<times> bool option) step" where
  \<comment> \<open>The second chain, on a cache miss. It tests the same three parameters as the
      first, so it takes the same branch.\<close>
  "fetch_skin env src slim =
     (case src of
        FromPlayer url pot_slim \<Rightarrow>
          (case skin_from_url env url of
             Inr skin \<Rightarrow> Continue (skin, if slim = None then Some pot_slim else slim)
           | Inl e \<Rightarrow>
               if e = UrlError then Return (HTTPException 404 ''Invalid URL'')
               else if e = ImageSizeError
               then Return (HTTPException 404 ''Image must be 64x64 pixels large'')
               else if e = UnknownPlayerError then Return (HTTPException 404 ''Unknown player'')
               else Raise e)
      | FromUrl u \<Rightarrow>
          (case skin_from_url env u of
             Inr skin \<Rightarrow> Continue (skin, slim)
           | Inl e \<Rightarrow>
               if e = UrlError then Return (HTTPException 404 ''Invalid URL'')
               else if e = ImageSizeError
               then Return (HTTPException 404 ''Image must be 64x64 pixels large'')
               else Raise e)
      | FromBase64 b64 \<Rightarrow>
          (case decode_payload env b64 of
             Inl e \<Rightarrow> Raise (Lib e)
           | Inr b \<Rightarrow>
               (case Image_open env b of
                  Inr skin \<Rightarrow> Continue (skin, slim)
                | Inl e \<Rightarrow>
                    \<comment> \<open>\<^verbatim>\<open>except UrlError\<close>: no library exception is one\<close>
                    if Lib e = UrlError
                    then Return (HTTPException 404 ''Invalid File, must be Image'')
                    else Raise (Lib e))))"

definition add_margin :: "image \<Rightarrow> int \<Rightarrow> image" where
  \<comment> \<open>The body of \<^verbatim>\<open>if margin > 0:\<close>\<close>
  "add_margin img margin =
     (let new = Image_new RGBA (nat (int (width img) + margin + margin),
                                nat (int (height img) + margin + margin))
      in paste new img (margin, margin))"

definition upscale_image :: "image \<Rightarrow> int \<Rightarrow> image" where
  \<comment> \<open>The body of \<^verbatim>\<open>if upscale > 1:\<close>\<close>
  "upscale_image img upscale =
     resize_nearest img (nat (int (width img) * upscale), nat (int (height img) * upscale))"

definition post_process :: "image \<Rightarrow> int \<Rightarrow> int \<Rightarrow> image" where
  "post_process rendered margin upscale =
     (let img = (if margin > 0 then add_margin rendered margin else rendered);
          img = (if upscale > 1 then upscale_image img upscale else img)
      in img)"

definition store :: "state \<Rightarrow> string list \<Rightarrow> string list \<Rightarrow> image \<Rightarrow> py_exn option \<times> state" where
  \<comment> \<open>\<^verbatim>\<open>try: image.save(pot_file)\<close> and its handler.\<close>
  "store st pot_path pot_file img =
     (case image_save st pot_file img of
        Inr st' \<Rightarrow> (None, st')
      | Inl e \<Rightarrow>
          if e = FileNotFoundError
          then (case mkdir st pot_path of
                  Inl e' \<Rightarrow> (Some e', st)
                | Inr st' \<Rightarrow>
                    (case image_save st' pot_file img of
                       Inr st'' \<Rightarrow> (None, st'')
                     | Inl e'' \<Rightarrow> (Some e'', st')))
          else (Some e, st))"

definition cache_file :: "string \<Rightarrow> string \<Rightarrow> string list" where
  \<comment> \<open>\<^verbatim>\<open>pot_file\<close>, where \<^verbatim>\<open>os.name\<close> is not \<^verbatim>\<open>'nt'\<close>.\<close>
  "cache_file path filename = joinpath (joinpath [''tmp''] path) filename"

definition api_template ::
  "env \<Rightarrow> (image \<Rightarrow> bool option \<Rightarrow> bool \<Rightarrow> image) \<Rightarrow> string \<Rightarrow>
   string option \<Rightarrow> string option \<Rightarrow> string option \<Rightarrow> bool option \<Rightarrow> bool \<Rightarrow> int \<Rightarrow> int \<Rightarrow>
   state \<Rightarrow> (exn + response) \<times> state" where
  "api_template env render_function path player skin_url skin_base64 slim overlay margin upscale st =
     (case select_source env player skin_url skin_base64 of
        Return r \<Rightarrow> (Inr r, st)
      | Raise e \<Rightarrow> (Inl e, st)
      | Continue (sliced, src) \<Rightarrow>
          (let filename = cache_filename sliced overlay margin upscale;
               pot_path = joinpath [''tmp''] path;
               pot_file = joinpath pot_path filename
           in case files st pot_file of
                Some img \<Rightarrow> (Inr (StreamingResponse img ''image/png''), st)
              | None \<Rightarrow>
                  (case fetch_skin env src slim of
                     Return r \<Rightarrow> (Inr r, st)
                   | Raise e \<Rightarrow> (Inl e, st)
                   | Continue (skin, slim') \<Rightarrow>
                       (let st1 = st\<lparr>render_calls := render_calls st @ [(skin, slim', overlay)]\<rparr>;
                            img = post_process (render_function skin slim' overlay) margin upscale
                        in case store st1 pot_path pot_file img of
                             (Some e, st2) \<Rightarrow> (Inl (Lib e), st2)
                           | (None, st2) \<Rightarrow>
                               (Inr (StreamingResponse img ''image/png''), st2)))))"

definition skin_route ::
  "env \<Rightarrow> string option \<Rightarrow> string option \<Rightarrow> string option \<Rightarrow> bool option \<Rightarrow> bool \<Rightarrow> int \<Rightarrow> int \<Rightarrow>
   state \<Rightarrow> (exn + response) \<times> state" where
  \<comment> \<open>\<^verbatim>\<open>GET /skin/\<close>: the render function returns the skin.\<close>
  "skin_route env = api_template env (\<lambda>x _ _. x) ''skins/''"

section \<open>Vocabulary of the properties\<close>

definition source_identifier :: "source \<Rightarrow> string" where
  \<comment> \<open>What the handler slices: the final path segment of the URL, or the inline payload.\<close>
  "source_identifier src =
     (case src of
        FromPlayer url _ \<Rightarrow> last (split_str CHR ''/'' url)
      | FromUrl u \<Rightarrow> last (split_str CHR ''/'' u)
      | FromBase64 b \<Rightarrow> b)"

definition last_15_stripped :: "string \<Rightarrow> string" where
  \<comment> \<open>The identifier tail in the specification's words: the last 15 characters, with a
      trailing file extension stripped.\<close>
  "last_15_stripped s = strip_extension (drop (length s - 15) s)"

definition normalized :: "env \<Rightarrow> image \<Rightarrow> image" where
  \<comment> \<open>What the normalizer makes of an opened image, before its size check.\<close>
  "normalized env opened =
     (if (width opened, height opened) = (64, 32)
      then old_to_new_skin env (convert opened RGBA) else convert opened RGBA)"

definition offline_env :: env where
  \<comment> \<open>A world for closed examples: no player is known and nothing can be fetched or
      decoded.\<close>
  "offline_env =
     \<lparr>skin_url_from_player = (\<lambda>_. Inl UnknownPlayerError),
      urlopen = (\<lambda>_. Inl OSError),
      Image_open = (\<lambda>_. Inl UnidentifiedImageError),
      b64decode = (\<lambda>_. Inl BinasciiError),
      old_to_new_skin = (\<lambda>im. im)\<rparr>"

definition empty_cache :: state where
  \<comment> \<open>The cache root exists and holds nothing.\<close>
  "empty_cache = \<lparr>dirs = {[''tmp'']}, files = Map.empty, render_calls = []\<rparr>"

definition tiny_image :: image where
  \<comment> \<open>A valid image that is no skin: two pixels, red and blue.\<close>
  "tiny_image =
     \<lparr>mode = RGB, width = 2, height = 1, rows = [[(255, 0, 0, 255), (0, 0, 255, 255)]]\<rparr>"

definition modern_skin :: image where
  "modern_skin = Image_new P (64, 64)"

definition legacy_skin :: image where
  "legacy_skin = Image_new RGB (64, 32)"

definition example_env :: env where
  \<comment> \<open>A world for closed examples. One player and three URLs are known; the bytes
      \<open>[1]\<close>, \<open>[2]\<close> and \<open>[3]\<close> stand for the files of a 64x64 skin, a 64x32 skin and
      the two-pixel image, and \<open>[4]\<close> for a file that is no image. The transform of
      legacy skins is an instance for the examples only: the skin on a transparent 64x64
      canvas.\<close>
  "example_env =
     \<lparr>skin_url_from_player =
        (\<lambda>p. if p = ''Steve''
             then Inr (''http://textures.example/texture/31f477eb1a7beee6'', False)
             else Inl UnknownPlayerError),
      urlopen =
        (\<lambda>u. if u = ''http://textures.example/texture/31f477eb1a7beee6'' then Inr [1]
             else if u = ''http://textures.example/legacy.png'' then Inr [2]
             else if u = ''http://textures.example/tiny.png'' then Inr [3]
             else Inl OSError),
      Image_open =
        (\<lambda>b. if b = [1] then Inr modern_skin
             else if b = [2] then Inr legacy_skin
             else if b = [3] then Inr tiny_image
             else Inl UnidentifiedImageError),
      b64decode =
        (\<lambda>t. if t = ''Aw==='' then Inr [3]
             else if t = ''BA==='' then Inr [4]
             else Inl BinasciiError),
      old_to_new_skin = (\<lambda>im. paste (Image_new RGBA (64, 64)) im (0, 0))\<rparr>"

section \<open>Facts about the string operations\<close>

lemma split_str_nonempty: "split_str c s \<noteq> []"
  by (induction s) (auto split: list.splits)

lemma split_str_append: "split_str c (p @ c # t) = split_str c p @ split_str c t"
  by (induction p) (auto simp: split_str_nonempty split: list.splits)

lemma split_str_no_sep: "c \<notin> set t \<Longrightarrow> split_str c t = [t]"
  by (induction t) auto

lemma last_split_str_append: "c \<notin> set t \<Longrightarrow> last (split_str c (p @ c # t)) = t"
  by (simp add: split_str_append split_str_no_sep)

lemma set_strip_extension: "set (strip_extension s) \<subseteq> set s"
proof -
  have "set (tl (dropWhile (\<lambda>x. x \<noteq> CHR ''.'') (rev s))) \<subseteq> set (rev s)"
    by (metis list.sel(2) list.set_sel(2) set_dropWhileD subsetI)
  then show ?thesis
    by (simp add: strip_extension_def rsplit1_def)
qed

lemma str_nat_nonempty: "str_nat n \<noteq> []"
  by (subst str_nat.simps) simp

lemma digit_char_inj: "a < 10 \<Longrightarrow> b < 10 \<Longrightarrow> digit_char a = digit_char b \<Longrightarrow> a = b"
proof -
  assume a: "a < 10" and b: "b < 10" and e: "digit_char a = digit_char b"
  have d: "distinct ''0123456789''" by simp
  have l: "length ''0123456789'' = 10" by simp
  from e have "''0123456789'' ! a = ''0123456789'' ! b" by (simp only: digit_char_def)
  with d a b l show "a = b" by (metis nth_eq_iff_index_eq)
qed

lemma digit_char_is_digit: "d < 10 \<Longrightarrow> is_digit (digit_char d)"
  unfolding is_digit_def digit_char_def
  by (rule nth_mem) simp

lemma str_nat_digits: "\<forall>c \<in> set (str_nat n). is_digit c"
proof (induction n rule: str_nat.induct)
  case (1 n)
  show ?case
  proof (cases "n < 10")
    case True
    then show ?thesis by (subst str_nat.simps) (simp add: digit_char_is_digit)
  next
    case False
    with 1 show ?thesis by (subst str_nat.simps) (simp add: digit_char_is_digit)
  qed
qed

lemma str_nat_inj: "str_nat m = str_nat n \<Longrightarrow> m = n"
proof (induction m arbitrary: n rule: str_nat.induct)
  case (1 m)
  show ?case
  proof (cases "m < 10")
    case mlt: True
    show ?thesis
    proof (cases "n < 10")
      case True
      with mlt 1(2) show ?thesis
        by (subst (asm) str_nat.simps, subst (asm) (2) str_nat.simps) (simp add: digit_char_inj)
    next
      case False
      have "str_nat n = str_nat (n div 10) @ [digit_char (n mod 10)]"
        using False by (subst str_nat.simps) simp
      moreover have "str_nat m = [digit_char m]" using mlt by (subst str_nat.simps) simp
      ultimately show ?thesis using 1(2) str_nat_nonempty[of "n div 10"] by simp
    qed
  next
    case mge: False
    have em: "str_nat m = str_nat (m div 10) @ [digit_char (m mod 10)]"
      using mge by (subst str_nat.simps) simp
    show ?thesis
    proof (cases "n < 10")
      case True
      then have "str_nat n = [digit_char n]" by (subst str_nat.simps) simp
      with em show ?thesis using 1(2) str_nat_nonempty[of "m div 10"] by simp
    next
      case False
      then have en: "str_nat n = str_nat (n div 10) @ [digit_char (n mod 10)]"
        by (subst str_nat.simps) simp
      from em en 1(2) have a: "str_nat (m div 10) = str_nat (n div 10)"
        and b: "digit_char (m mod 10) = digit_char (n mod 10)" by simp_all
      from 1(1)[OF mge a] have "m div 10 = n div 10" .
      moreover from b have "m mod 10 = n mod 10" by (simp add: digit_char_inj)
      ultimately show ?thesis by (metis div_mult_mod_eq)
    qed
  qed
qed

lemma digit_run_unique:
  assumes "\<forall>c\<in>set a. is_digit c" and "\<forall>c\<in>set b. is_digit c"
    and "\<not> is_digit x" and "\<not> is_digit y" and "a @ x # r = b @ y # s"
  shows "a = b \<and> x = y \<and> r = s"
  using assms
proof (induction a arbitrary: b)
  case Nil
  then show ?case by (cases b) auto
next
  case (Cons c a)
  then show ?case by (cases b) auto
qed

lemma str_int_nonneg: "0 \<le> i \<Longrightarrow> str_int i = str_nat (nat i)"
  by (simp add: str_int_def)

lemma str_int_inj: "0 \<le> i \<Longrightarrow> 0 \<le> j \<Longrightarrow> str_int i = str_int j \<Longrightarrow> i = j"
  using str_nat_inj[of "nat i" "nat j"] by (simp add: str_int_nonneg)

lemma str_int_digits: "0 \<le> i \<Longrightarrow> \<forall>c\<in>set (str_int i). is_digit c"
  by (simp add: str_int_nonneg str_nat_digits)

lemma not_digit_u: "\<not> is_digit CHR ''u''" by (simp add: is_digit_def)
lemma not_digit_dot: "\<not> is_digit CHR ''.''" by (simp add: is_digit_def)

lemma modifier_filename_eq:
  "modifier_filename tail overlay margin upscale =
     tail @ (if overlay then ''o'' else []) @ (if margin > 0 then ''m'' @ str_int margin else [])
       @ (if upscale > 1 then ''u'' @ str_int upscale else []) @ ''.png''"
  by (simp add: modifier_filename_def Let_def)

lemma upscale_token_inj:
  assumes "1 \<le> u" "1 \<le> u'"
    and "(if u > 1 then ''u'' @ str_int u else []) @ ''.png''
       = (if u' > 1 then ''u'' @ str_int u' else []) @ ''.png''"
  shows "u = u'"
proof (cases "u > 1")
  case True
  show ?thesis
  proof (cases "u' > 1")
    case u': True
    with True assms(3) have "str_int u = str_int u'" by simp
    with True u' show ?thesis by (simp add: str_int_inj)
  next
    case False
    with True assms(3) show ?thesis by simp
  qed
next
  case False
  show ?thesis
  proof (cases "u' > 1")
    case True
    with False assms(3) show ?thesis by simp
  next
    case u': False
    with False assms(1,2) show ?thesis by simp
  qed
qed

lemma margin_token_inj:
  assumes "0 \<le> m" "0 \<le> m'"
    and r: "r = [] \<or> hd r = CHR ''u'' \<or> hd r = CHR ''.''" "r \<noteq> []"
    and s: "s = [] \<or> hd s = CHR ''u'' \<or> hd s = CHR ''.''" "s \<noteq> []"
    and e: "(if m > 0 then ''m'' @ str_int m else []) @ r = (if m' > 0 then ''m'' @ str_int m' else []) @ s"
  shows "m = m' \<and> r = s"
proof -
  obtain x r' where r': "r = x # r'" "\<not> is_digit x" "x \<noteq> CHR ''m''"
    using r by (cases r) (auto simp: is_digit_def)
  obtain y s' where s': "s = y # s'" "\<not> is_digit y" "y \<noteq> CHR ''m''"
    using s by (cases s) (auto simp: is_digit_def)
  show ?thesis
  proof (cases "m > 0")
    case True
    show ?thesis
    proof (cases "m' > 0")
      case m': True
      with True e r' s' have "str_int m @ x # r' = str_int m' @ y # s'" by simp
      from digit_run_unique[OF str_int_digits[OF assms(1)] str_int_digits[OF assms(2)] r'(2) s'(2) this]
      show ?thesis using assms(1,2) r' s' by (simp add: str_int_inj)
    next
      case False
      with True e r' s' show ?thesis by simp
    qed
  next
    case False
    show ?thesis
    proof (cases "m' > 0")
      case True
      with False e r' s' show ?thesis by simp
    next
      case m': False
      with False e assms(1,2) show ?thesis by simp
    qed
  qed
qed

lemma modifier_filename_inj:
  assumes "0 \<le> m" "0 \<le> m'" "1 \<le> u" "1 \<le> u'"
    and e: "modifier_filename tail ov m u = modifier_filename tail ov' m' u'"
  shows "ov = ov' \<and> m = m' \<and> u = u'"
proof -
  define M where "M k = (if k > 0 then ''m'' @ str_int k else [])" for k :: int
  define U where "U k = (if k > 1 then ''u'' @ str_int k else []) @ ''.png''" for k :: int
  have U_hd: "U k \<noteq> [] \<and> (hd (U k) = CHR ''u'' \<or> hd (U k) = CHR ''.'')" for k
    by (simp add: U_def)
  have MU_hd: "M k @ U j \<noteq> [] \<and> hd (M k @ U j) \<noteq> CHR ''o''" for k j
    by (simp add: M_def U_def)
  from e have e': "(if ov then ''o'' else []) @ M m @ U u = (if ov' then ''o'' else []) @ M m' @ U u'"
    by (simp add: modifier_filename_eq M_def U_def)
  have ov: "ov = ov'"
  proof (rule ccontr)
    assume "ov \<noteq> ov'"
    then consider "ov" "\<not> ov'" | "\<not> ov" "ov'" by blast
    then show False
    proof cases
      case 1
      with e' have "CHR ''o'' # M m @ U u = M m' @ U u'" by simp
      then show False using MU_hd[of m' u'] by (metis list.sel(1))
    next
      case 2
      with e' have "M m @ U u = CHR ''o'' # M m' @ U u'" by simp
      then show False using MU_hd[of m u] by (metis list.sel(1))
    qed
  qed
  with e' have e2: "M m @ U u = M m' @ U u'" by simp
  have "m = m' \<and> U u = U u'"
    using margin_token_inj[OF assms(1,2), of "U u" "U u'"] U_hd e2 unfolding M_def by blast
  then show ?thesis using ov upscale_token_inj[OF assms(3,4)] unfolding U_def by simp
qed

lemma identifier_tail_eq: "identifier_tail s = butlast (drop (length s - 16) s)"
  unfolding identifier_tail_def py_slice_def slice_index_def Let_def
  by (auto simp: butlast_conv_take drop_take max_def min_def nat_diff_distrib' split: if_splits)

lemma set_identifier_tail: "set (identifier_tail s) \<subseteq> set s"
  unfolding identifier_tail_eq by (meson in_set_butlastD in_set_dropD subsetI)

lemma last_split_str_no_sep: "c \<notin> set (last (split_str c s))"
  by (induction s) (auto simp: split_str_nonempty split: list.splits)

lemma identifier_tail_snoc: "identifier_tail (seg @ [a]) = drop (length seg - 15) seg"
  by (simp add: identifier_tail_eq butlast_append)

lemma length_identifier_tail: "length (identifier_tail s) \<le> 15"
  by (simp add: identifier_tail_eq)

lemma no_slash_str_int: "CHR ''/'' \<notin> set (str_int i)"
proof -
  have "CHR ''/'' \<notin> set (str_nat n)" for n
    using str_nat_digits[of n] by (auto simp: is_digit_def)
  then show ?thesis by (simp add: str_int_def)
qed

lemma slash_in_modifier_filename:
  "CHR ''/'' \<in> set (modifier_filename t ov m u) \<longleftrightarrow> CHR ''/'' \<in> set t"
  by (simp add: modifier_filename_eq no_slash_str_int)

lemma no_slash_url_tail: "CHR ''/'' \<notin> set (url_tail url)"
  using last_split_str_no_sep[of "CHR ''/''" url] set_identifier_tail
  unfolding url_tail_def by blast

lemma strip_extension_no_dot: "CHR ''.'' \<notin> set s \<Longrightarrow> strip_extension s = s"
  by (simp add: strip_extension_def rsplit1_def)

lemma strip_extension_dot: "CHR ''.'' \<notin> set e \<Longrightarrow> strip_extension (b @ CHR ''.'' # e) = b"
proof -
  assume e: "CHR ''.'' \<notin> set e"
  then have "dropWhile (\<lambda>x. x \<noteq> CHR ''.'') (rev e @ CHR ''.'' # rev b) = CHR ''.'' # rev b"
    by (subst dropWhile_append2) auto
  then show ?thesis by (simp add: strip_extension_def rsplit1_def)
qed

section \<open>Facts about the image operations\<close>

lemma Image_new_sel:
  "mode (Image_new md (w, h)) = md" "width (Image_new md (w, h)) = w"
  "height (Image_new md (w, h)) = h"
  by (simp_all add: Image_new_def)

lemma convert_sel:
  "mode (convert im md) = md" "width (convert im md) = width im"
  "height (convert im md) = height im" "rows (convert im md) = rows im"
  by (simp_all add: convert_def)

lemma paste_sel:
  "mode (paste dst src (ox, oy)) = mode dst" "width (paste dst src (ox, oy)) = width dst"
  "height (paste dst src (ox, oy)) = height dst"
  by (simp_all add: paste_def)

lemma wf_paste: "wf_image (paste dst src box)"
  by (cases box) (simp add: wf_image_def paste_def list_all_iff)

lemma rows_paste:
  "x < width dst \<Longrightarrow> y < height dst \<Longrightarrow>
   rows (paste dst src (ox, oy)) ! y ! x =
     (if ox \<le> int x \<and> int x < ox + int (width src) \<and> oy \<le> int y \<and> int y < oy + int (height src)
      then rows src ! nat (int y - oy) ! nat (int x - ox) else rows dst ! y ! x)"
  by (simp add: paste_def)

lemma rows_Image_new: "x < w \<Longrightarrow> y < h \<Longrightarrow> rows (Image_new md (w, h)) ! y ! x = (0, 0, 0, 0)"
  by (simp add: Image_new_def)

lemma wf_Image_new: "wf_image (Image_new md sz)"
  by (cases sz) (simp add: wf_image_def Image_new_def list_all_iff)

lemma add_margin_size:
  assumes "0 < m"
  shows "width (add_margin im m) = width im + 2 * nat m"
    and "height (add_margin im m) = height im + 2 * nat m"
    and "mode (add_margin im m) = RGBA"
proof -
  have sw: "nat (int (width im) + m + m) = width im + 2 * nat m"
    and sh: "nat (int (height im) + m + m) = height im + 2 * nat m"
    using assms by linarith+
  show "width (add_margin im m) = width im + 2 * nat m"
    by (simp only: add_margin_def Let_def sw sh paste_sel Image_new_sel)
  show "height (add_margin im m) = height im + 2 * nat m"
    by (simp only: add_margin_def Let_def sw sh paste_sel Image_new_sel)
  show "mode (add_margin im m) = RGBA"
    by (simp only: add_margin_def Let_def sw sh paste_sel Image_new_sel)
qed

lemma add_margin_border:
  assumes "0 < m" and "x < width im + 2 * nat m" and "y < height im + 2 * nat m"
    and "x < nat m \<or> width im + nat m \<le> x \<or> y < nat m \<or> height im + nat m \<le> y"
  shows "getpixel (add_margin im m) (x, y) = Some (0, 0, 0, 0)"
proof -
  let ?new = "Image_new RGBA (width im + 2 * nat m, height im + 2 * nat m)"
  have sw: "nat (int (width im) + m + m) = width im + 2 * nat m"
    and sh: "nat (int (height im) + m + m) = height im + 2 * nat m"
    using assms(1) by linarith+
  have e: "add_margin im m = paste ?new im (m, m)"
    by (simp only: add_margin_def Let_def sw sh)
  have out: "\<not> (m \<le> int x \<and> int x < m + int (width im) \<and> m \<le> int y \<and> int y < m + int (height im))"
    using assms(1,4) by auto
  have "rows (paste ?new im (m, m)) ! y ! x =
      (if m \<le> int x \<and> int x < m + int (width im) \<and> m \<le> int y \<and> int y < m + int (height im)
       then rows im ! nat (int y - m) ! nat (int x - m) else rows ?new ! y ! x)"
    using assms(2,3) by (intro rows_paste) (simp_all add: Image_new_sel)
  also have "\<dots> = rows ?new ! y ! x" by (simp only: out if_False)
  also have "\<dots> = (0, 0, 0, 0)" using assms(2,3) by (rule rows_Image_new)
  finally show ?thesis using assms(2,3) by (simp add: getpixel_def e paste_sel Image_new_sel)
qed

lemma add_margin_content:
  assumes "0 < m" and "x < width im" and "y < height im"
  shows "getpixel (add_margin im m) (x + nat m, y + nat m) = getpixel im (x, y)"
proof -
  let ?new = "Image_new RGBA (width im + 2 * nat m, height im + 2 * nat m)"
  have sw: "nat (int (width im) + m + m) = width im + 2 * nat m"
    and sh: "nat (int (height im) + m + m) = height im + 2 * nat m"
    using assms(1) by linarith+
  have e: "add_margin im m = paste ?new im (m, m)"
    by (simp only: add_margin_def Let_def sw sh)
  have inb: "m \<le> int (x + nat m) \<and> int (x + nat m) < m + int (width im) \<and>
             m \<le> int (y + nat m) \<and> int (y + nat m) < m + int (height im)"
    using assms by auto
  have "rows (paste ?new im (m, m)) ! (y + nat m) ! (x + nat m) =
      (if m \<le> int (x + nat m) \<and> int (x + nat m) < m + int (width im) \<and>
          m \<le> int (y + nat m) \<and> int (y + nat m) < m + int (height im)
       then rows im ! nat (int (y + nat m) - m) ! nat (int (x + nat m) - m)
       else rows ?new ! (y + nat m) ! (x + nat m))"
    using assms(2,3) by (intro rows_paste) (simp_all add: Image_new_sel)
  also have "\<dots> = rows im ! nat (int (y + nat m) - m) ! nat (int (x + nat m) - m)"
    by (simp only: inb simp_thms if_True)
  also have "\<dots> = rows im ! y ! x" using assms(1) by simp
  finally show ?thesis using assms by (simp add: getpixel_def e paste_sel Image_new_sel)
qed

lemma nearest_coord_scale:
  assumes "0 < w" and "0 < k"
  shows "nearest_coord x (w * k) w = x div k"
proof -
  have "2 * (w * k) = (2 * k) * w" by simp
  then have "((2 * x + 1) * w) div (2 * (w * k)) = ((2 * x + 1) * w) div ((2 * k) * w)"
    by (simp only:)
  also have "\<dots> = (2 * x + 1) div (2 * k)" using assms(1) by (intro div_mult_mult2) simp
  also have "\<dots> = (2 * x + 1) div 2 div k" by (simp add: div_mult2_eq)
  also have "\<dots> = x div k" by simp
  finally show ?thesis by (simp add: nearest_coord_def)
qed

lemma resize_nearest_sel:
  "mode (resize_nearest im (w, h)) = mode im" "width (resize_nearest im (w, h)) = w"
  "height (resize_nearest im (w, h)) = h"
  by (simp_all add: resize_nearest_def)

lemma wf_resize_nearest: "wf_image (resize_nearest im sz)"
  by (cases sz) (simp add: wf_image_def resize_nearest_def list_all_iff)

lemma upscale_image_size:
  assumes "1 < u"
  shows "width (upscale_image im u) = width im * nat u"
    and "height (upscale_image im u) = height im * nat u"
    and "mode (upscale_image im u) = mode im"
  using assms by (simp_all add: upscale_image_def resize_nearest_sel nat_mult_distrib)

lemma upscale_image_pixel:
  assumes "1 < u" and "x < width im * nat u" and "y < height im * nat u"
  shows "x div nat u < width im \<and> y div nat u < height im \<and>
         getpixel (upscale_image im u) (x, y) = getpixel im (x div nat u, y div nat u)"
proof -
  have k: "0 < nat u" using assms(1) by simp
  have w: "0 < width im" using assms(2) by (cases "width im") simp_all
  have h: "0 < height im" using assms(3) by (cases "height im") simp_all
  have xd: "x div nat u < width im" using assms(2) k by (simp add: less_mult_imp_div_less)
  have yd: "y div nat u < height im" using assms(3) k by (simp add: less_mult_imp_div_less)
  have e: "upscale_image im u = resize_nearest im (width im * nat u, height im * nat u)"
    using assms(1) by (simp add: upscale_image_def nat_mult_distrib)
  have "rows (upscale_image im u) ! y ! x = rows im ! (y div nat u) ! (x div nat u)"
    using assms(2,3) by (simp add: e resize_nearest_def nearest_coord_scale[OF w k]
        nearest_coord_scale[OF h k])
  then show ?thesis using xd yd assms(2,3)
    by (simp add: getpixel_def e resize_nearest_sel)
qed

lemma wf_add_margin: "wf_image (add_margin im m)"
  by (simp add: add_margin_def Let_def wf_paste)

lemma wf_upscale_image: "wf_image (upscale_image im u)"
  by (simp add: upscale_image_def wf_resize_nearest)

section \<open>Facts about the handler\<close>

lemma select_source_sliced:
  "select_source env p u b = Continue (sl, src) \<Longrightarrow> sl = identifier_tail (source_identifier src)"
  by (auto simp: select_source_def source_identifier_def url_tail_def
      split: option.splits sum.splits if_splits prod.splits)

lemma store_ok: "store st pp pf img = (None, st') \<Longrightarrow> files st' pf = Some img"
  by (auto simp: store_def image_save_def mkdir_def split: if_splits sum.splits)

lemma api_template_cache_hit:
  assumes "select_source env p u b = Continue (sl, src)"
    and "files st (cache_file path (cache_filename sl ov m up)) = Some img"
  shows "api_template env rf path p u b slim ov m up st = (Inr (StreamingResponse img ''image/png''), st)"
  using assms by (simp add: api_template_def cache_file_def Let_def)

lemma fetch_skin_Return:
  "fetch_skin env src slim = Return r \<Longrightarrow> \<exists>c d. r = HTTPException c d"
  by (auto simp: fetch_skin_def split: source.splits sum.splits if_splits)

lemma api_template_response_cached:
  assumes "select_source env p u b = Continue (sl, src)"
    and "api_template env rf path p u b slim ov m up st = (Inr (StreamingResponse img t), st')"
  shows "files st' (cache_file path (cache_filename sl ov m up)) = Some img \<and> t = ''image/png''"
  using assms
  by (auto simp: api_template_def cache_file_def Let_def
      split: option.splits step.splits prod.splits dest: store_ok fetch_skin_Return)

lemma truthy_None: "truthy v = None \<longleftrightarrow> v = None \<or> v = Some []"
  by (simp add: truthy_def split: option.splits)

lemma truthy_Some: "truthy v = Some s \<longleftrightarrow> v = Some s \<and> s \<noteq> []"
  by (auto simp: truthy_def split: option.splits if_splits)

lemma render_calls_store: "render_calls (snd (store st pp pf img)) = render_calls st"
  by (auto simp: store_def image_save_def mkdir_def split: sum.splits if_splits)

lemma select_source_base64:
  "truthy player = None \<Longrightarrow> truthy skin_url = None \<Longrightarrow> truthy skin_base64 = Some b64 \<Longrightarrow>
   select_source env player skin_url skin_base64 = Continue (identifier_tail b64, FromBase64 b64)"
  by (simp add: select_source_def)

lemma api_template_miss:
  assumes "select_source env player skin_url skin_base64 = Continue (sliced, src)"
    and "files st (cache_file path (cache_filename sliced overlay margin upscale)) = None"
  shows "api_template env rf path player skin_url skin_base64 slim overlay margin upscale st =
     (case fetch_skin env src slim of
        Return r \<Rightarrow> (Inr r, st)
      | Raise e \<Rightarrow> (Inl e, st)
      | Continue (skin, slim') \<Rightarrow>
          (let st1 = st\<lparr>render_calls := render_calls st @ [(skin, slim', overlay)]\<rparr>;
               img = post_process (rf skin slim' overlay) margin upscale
           in case store st1 (joinpath [''tmp''] path)
                     (cache_file path (cache_filename sliced overlay margin upscale)) img of
                (Some e, st2) \<Rightarrow> (Inl (Lib e), st2)
              | (None, st2) \<Rightarrow> (Inr (StreamingResponse img ''image/png''), st2)))"
  using assms unfolding api_template_def cache_file_def Let_def by simp

lemma skin_from_url_fetched:
  assumes "urlopen env url = Inr file" and "Image_open env file = Inr opened"
  shows "skin_from_url env url =
     (if (width (normalized env opened), height (normalized env opened)) = (64, 64)
      then Inr (normalized env opened) else Inl ImageSizeError)"
  using assms by (simp add: skin_from_url_def normalized_def Let_def convert_sel)

section \<open>The cache key\<close>

text \<open>
  C2: the file name is the identifier tail followed, in this order, by \<open>o\<close> exactly when
  the overlay is on, \<open>m\<close> and the margin in decimal exactly when the margin is positive,
  \<open>u\<close> and the upscale factor in decimal exactly when the factor exceeds 1, and
  \<open>.png\<close>. For one tail, two settings of the options with margins from 0 and factors
  from 1 (the values a request can carry: 0 or 1 to 8, and 1 or 2 to 8) that differ in
  any option give different names.
\<close>

theorem cache_key_by_options:
  "modifier_filename tail overlay margin upscale =
     tail @ (if overlay then ''o'' else []) @ (if margin > 0 then ''m'' @ str_int margin else [])
       @ (if upscale > 1 then ''u'' @ str_int upscale else []) @ ''.png''
   \<and> (0 \<le> margin \<and> 0 \<le> margin' \<and> 1 \<le> upscale \<and> 1 \<le> upscale' \<and>
        (overlay, margin, upscale) \<noteq> (overlay', margin', upscale') \<longrightarrow>
        modifier_filename tail overlay margin upscale \<noteq>
        modifier_filename tail overlay' margin' upscale')"
proof (intro conjI impI)
  show "modifier_filename tail overlay margin upscale =
     tail @ (if overlay then ''o'' else []) @ (if margin > 0 then ''m'' @ str_int margin else [])
       @ (if upscale > 1 then ''u'' @ str_int upscale else []) @ ''.png''"
    by (rule modifier_filename_eq)
next
  assume a: "0 \<le> margin \<and> 0 \<le> margin' \<and> 1 \<le> upscale \<and> 1 \<le> upscale' \<and>
        (overlay, margin, upscale) \<noteq> (overlay', margin', upscale')"
  show "modifier_filename tail overlay margin upscale \<noteq>
        modifier_filename tail overlay' margin' upscale'"
  proof
    assume "modifier_filename tail overlay margin upscale =
        modifier_filename tail overlay' margin' upscale'"
    with a have "overlay = overlay' \<and> margin = margin' \<and> upscale = upscale'"
      using modifier_filename_inj[of margin margin' upscale upscale' tail overlay overlay'] by blast
    with a show False by simp
  qed
qed

theorem cache_key_by_options_witness:
  "modifier_filename ''7df319a713eb810'' True 4 2 = ''7df319a713eb810om4u2.png''
   \<and> (0::int) \<le> 4 \<and> (0::int) \<le> 0 \<and> (1::int) \<le> 2 \<and> (1::int) \<le> 2
   \<and> (True, 4::int, 2::int) \<noteq> (True, 0, 2)
   \<and> modifier_filename ''7df319a713eb810'' True 4 2 \<noteq> modifier_filename ''7df319a713eb810'' True 0 2"
  using cache_key_by_options[of "''7df319a713eb810''" True 4 2 0 2 True]
  by (simp add: modifier_filename_def str_int_def str_nat.simps digit_char_def)

section \<open>The identifier tail\<close>

text \<open>
  C6, as the code has it: for every source the sliced identifier is the characters that
  precede the last character of the final path segment of the URL (player, skin URL) or of
  the payload (base64), at most 15 of them: the slice from 16 before the end to 1 before
  the end. The extension is stripped from that slice: where the slice has a dot, the part
  from its last dot on is removed, and a slice with no dot is kept whole.
\<close>

theorem identifier_tail_slice:
  "select_source env player skin_url skin_base64 = Continue (sliced, src) \<longrightarrow>
     sliced = butlast (drop (length (source_identifier src) - 16) (source_identifier src))
     \<and> length sliced \<le> 15
     \<and> (CHR ''.'' \<notin> set sliced \<longrightarrow> strip_extension sliced = sliced)
     \<and> (\<forall>b e. sliced = b @ CHR ''.'' # e \<and> CHR ''.'' \<notin> set e \<longrightarrow> strip_extension sliced = b)"
  using select_source_sliced[of env player skin_url skin_base64 sliced src]
  by (auto simp: identifier_tail_eq strip_extension_no_dot strip_extension_dot)

theorem identifier_tail_slice_witness:
  "select_source offline_env None (Some ''http://textures.example/legacy.png'') None
     = Continue (''legacy.pn'', FromUrl ''http://textures.example/legacy.png'')
   \<and> source_identifier (FromUrl ''http://textures.example/legacy.png'') = ''legacy.png''
   \<and> ''legacy.pn'' = butlast (drop (length ''legacy.png'' - 16) ''legacy.png'')
   \<and> ''legacy.pn'' = ''legacy'' @ CHR ''.'' # ''pn''
   \<and> CHR ''.'' \<notin> set ''pn''
   \<and> strip_extension ''legacy.pn'' = ''legacy''"
proof -
  have s: "select_source offline_env None (Some ''http://textures.example/legacy.png'') None
     = Continue (''legacy.pn'', FromUrl ''http://textures.example/legacy.png'')"
    by (simp add: select_source_def truthy_def url_tail_def identifier_tail_def py_slice_def
        slice_index_def)
  have d: "''legacy.pn'' = ''legacy'' @ CHR ''.'' # ''pn'' \<and> CHR ''.'' \<notin> set ''pn''"
    by simp
  note c = identifier_tail_slice[of offline_env None "Some ''http://textures.example/legacy.png''"
      None "''legacy.pn''" "FromUrl ''http://textures.example/legacy.png''", THEN mp, OF s]
  from c have e: "\<forall>b e. ''legacy.pn'' = b @ CHR ''.'' # e \<and> CHR ''.'' \<notin> set e \<longrightarrow>
             strip_extension ''legacy.pn'' = b"
    by (elim conjE)
  from e[THEN spec, THEN spec, THEN mp, OF d]
  have x: "strip_extension ''legacy.pn'' = ''legacy''" .
  have i: "source_identifier (FromUrl ''http://textures.example/legacy.png'') = ''legacy.png''"
    by (simp add: source_identifier_def)
  show ?thesis
    by (intro conjI s i x) simp_all
qed

text \<open>
  C6 as stated fails: for the texture URL ending in \<open>31f477eb1a7beee6\<close> the handler's
  tail is \<open>31f477eb1a7beee\<close>, and the last 15 characters are \<open>1f477eb1a7beee6\<close>.
\<close>

theorem identifier_tail_last_15_counterexample:
  "select_source offline_env None (Some ''http://textures.example/texture/31f477eb1a7beee6'') None
     = Continue (''31f477eb1a7beee'', FromUrl ''http://textures.example/texture/31f477eb1a7beee6'')
   \<and> strip_extension ''31f477eb1a7beee'' = ''31f477eb1a7beee''
   \<and> last_15_stripped (source_identifier (FromUrl ''http://textures.example/texture/31f477eb1a7beee6''))
       = ''1f477eb1a7beee6''
   \<and> strip_extension ''31f477eb1a7beee'' \<noteq>
       last_15_stripped (source_identifier (FromUrl ''http://textures.example/texture/31f477eb1a7beee6''))"
  by (simp add: select_source_def truthy_def url_tail_def identifier_tail_def py_slice_def
      slice_index_def source_identifier_def last_15_stripped_def strip_extension_def rsplit1_def)

text \<open>
  C7, as the code has it: for a player or a skin URL the file name never contains the
  path separator \<open>/\<close>; for a base64 payload it contains one exactly when the sliced
  payload, its extension stripped, does.
\<close>

theorem cache_key_separator:
  "select_source env player skin_url skin_base64 = Continue (sliced, src) \<longrightarrow>
     (case src of
        FromBase64 b \<Rightarrow>
          (CHR ''/'' \<in> set (cache_filename sliced overlay margin upscale)) =
          (CHR ''/'' \<in> set (strip_extension (identifier_tail b)))
      | _ \<Rightarrow> CHR ''/'' \<notin> set (cache_filename sliced overlay margin upscale))"
proof
  assume a: "select_source env player skin_url skin_base64 = Continue (sliced, src)"
  from select_source_sliced[OF a] have sl: "sliced = identifier_tail (source_identifier src)" .
  show "case src of
        FromBase64 b \<Rightarrow>
          (CHR ''/'' \<in> set (cache_filename sliced overlay margin upscale)) =
          (CHR ''/'' \<in> set (strip_extension (identifier_tail b)))
      | _ \<Rightarrow> CHR ''/'' \<notin> set (cache_filename sliced overlay margin upscale)"
  proof (cases src)
    case (FromPlayer url pot_slim)
    with sl have "sliced = url_tail url" by (simp add: source_identifier_def url_tail_def)
    then have "CHR ''/'' \<notin> set (strip_extension sliced)"
      using no_slash_url_tail[of url] set_strip_extension[of sliced] by blast
    with FromPlayer show ?thesis by (simp add: cache_filename_def slash_in_modifier_filename)
  next
    case (FromUrl u)
    with sl have "sliced = url_tail u" by (simp add: source_identifier_def url_tail_def)
    then have "CHR ''/'' \<notin> set (strip_extension sliced)"
      using no_slash_url_tail[of u] set_strip_extension[of sliced] by blast
    with FromUrl show ?thesis by (simp add: cache_filename_def slash_in_modifier_filename)
  next
    case (FromBase64 b)
    with sl show ?thesis
      by (simp add: source_identifier_def cache_filename_def slash_in_modifier_filename)
  qed
qed

theorem cache_key_separator_witness:
  "select_source example_env (Some ''Steve'') None None
     = Continue (''31f477eb1a7beee'', FromPlayer ''http://textures.example/texture/31f477eb1a7beee6'' False)
   \<and> CHR ''/'' \<notin> set (cache_filename ''31f477eb1a7beee'' True 4 2)"
  using cache_key_separator[of example_env "Some ''Steve''" None None "''31f477eb1a7beee''"
      "FromPlayer ''http://textures.example/texture/31f477eb1a7beee6'' False" True 4 2]
  by (simp add: select_source_def truthy_def example_env_def url_tail_def identifier_tail_def
      py_slice_def slice_index_def)

text \<open>
  C7 as stated fails: base64 text may contain \<open>/\<close>, the slice keeps it, and the cache
  file of the payload \<open>AAAA/w==\<close> lies in a subdirectory of the route's directory.
\<close>

theorem cache_key_separator_counterexample:
  "select_source offline_env None None (Some ''AAAA/w=='')
     = Continue (''AAAA/w='', FromBase64 ''AAAA/w=='')
   \<and> cache_filename ''AAAA/w='' True 0 1 = ''AAAA/w=o.png''
   \<and> CHR ''/'' \<in> set (cache_filename ''AAAA/w='' True 0 1)
   \<and> cache_file ''skins/'' ''AAAA/w=o.png'' = [''tmp'', ''skins'', ''AAAA'', ''w=o.png'']"
  by (simp add: select_source_def truthy_def identifier_tail_def py_slice_def slice_index_def
      cache_filename_def strip_extension_def rsplit1_def modifier_filename_def
      cache_file_def joinpath_def path_parts_def)

text \<open>
  C10: two requests whose sliced identifiers (final path segment, or payload) differ in the
  last character only, with the same overlay, margin and upscale, get the same file name;
  and once the first has been answered with an image, the second is answered from the
  cache with that image, whatever its own source holds.
\<close>

theorem last_character_collision:
  assumes "select_source env p1 u1 b1 = Continue (sl1, src1)"
    and "select_source env p2 u2 b2 = Continue (sl2, src2)"
    and "source_identifier src1 = seg @ [c1]"
    and "source_identifier src2 = seg @ [c2]"
  shows "cache_filename sl1 overlay margin upscale = cache_filename sl2 overlay margin upscale
    \<and> (api_template env rf path p1 u1 b1 slim1 overlay margin upscale st
          = (Inr (StreamingResponse img t), st') \<longrightarrow>
        api_template env rf' path p2 u2 b2 slim2 overlay margin upscale st'
          = (Inr (StreamingResponse img t), st'))"
proof -
  have "sl1 = sl2"
    using select_source_sliced[OF assms(1)] select_source_sliced[OF assms(2)] assms(3,4)
    by (simp add: identifier_tail_snoc)
  then show ?thesis
    using api_template_response_cached[OF assms(1)] api_template_cache_hit[OF assms(2)]
    by fastforce
qed

theorem last_character_collision_witness:
  "select_source example_env None (Some ''http://textures.example/texture/31f477eb1a7beee6'') None
     = Continue (''31f477eb1a7beee'', FromUrl ''http://textures.example/texture/31f477eb1a7beee6'')
   \<and> select_source example_env None (Some ''http://textures.example/texture/31f477eb1a7beee7'') None
     = Continue (''31f477eb1a7beee'', FromUrl ''http://textures.example/texture/31f477eb1a7beee7'')
   \<and> source_identifier (FromUrl ''http://textures.example/texture/31f477eb1a7beee6'')
     = ''31f477eb1a7beee'' @ ''6''
   \<and> source_identifier (FromUrl ''http://textures.example/texture/31f477eb1a7beee7'')
     = ''31f477eb1a7beee'' @ ''7''
   \<and> api_template example_env (\<lambda>x _ _. x) ''skins/''
         None (Some ''http://textures.example/texture/31f477eb1a7beee6'') None (Some False) True 0 1
         empty_cache
     = (Inr (StreamingResponse (convert modern_skin RGBA) ''image/png''),
        \<lparr>dirs = {[''tmp'', ''skins''], [''tmp'']},
         files = [[''tmp'', ''skins'', ''31f477eb1a7beeeo.png''] \<mapsto> convert modern_skin RGBA],
         render_calls = [(convert modern_skin RGBA, Some False, True)]\<rparr>)
   \<and> api_template example_env (\<lambda>x _ _. x) ''skins/''
         None (Some ''http://textures.example/texture/31f477eb1a7beee7'') None (Some False) True 0 1
         \<lparr>dirs = {[''tmp'', ''skins''], [''tmp'']},
          files = [[''tmp'', ''skins'', ''31f477eb1a7beeeo.png''] \<mapsto> convert modern_skin RGBA],
          render_calls = [(convert modern_skin RGBA, Some False, True)]\<rparr>
     = (Inr (StreamingResponse (convert modern_skin RGBA) ''image/png''),
        \<lparr>dirs = {[''tmp'', ''skins''], [''tmp'']},
         files = [[''tmp'', ''skins'', ''31f477eb1a7beeeo.png''] \<mapsto> convert modern_skin RGBA],
         render_calls = [(convert modern_skin RGBA, Some False, True)]\<rparr>)"
proof -
  have s1: "select_source example_env None (Some ''http://textures.example/texture/31f477eb1a7beee6'') None
     = Continue (''31f477eb1a7beee'', FromUrl ''http://textures.example/texture/31f477eb1a7beee6'')"
    by (simp add: select_source_def truthy_def url_tail_def identifier_tail_def py_slice_def
        slice_index_def)
  have s2: "select_source example_env None (Some ''http://textures.example/texture/31f477eb1a7beee7'') None
     = Continue (''31f477eb1a7beee'', FromUrl ''http://textures.example/texture/31f477eb1a7beee7'')"
    by (simp add: select_source_def truthy_def url_tail_def identifier_tail_def py_slice_def
        slice_index_def)
  have i1: "source_identifier (FromUrl ''http://textures.example/texture/31f477eb1a7beee6'')
     = ''31f477eb1a7beee'' @ ''6''"
    by (simp add: source_identifier_def)
  have i2: "source_identifier (FromUrl ''http://textures.example/texture/31f477eb1a7beee7'')
     = ''31f477eb1a7beee'' @ ''7''"
    by (simp add: source_identifier_def)
  have f: "fetch_skin example_env (FromUrl ''http://textures.example/texture/31f477eb1a7beee6'') (Some False)
     = Continue (convert modern_skin RGBA, Some False)"
    by (simp add: fetch_skin_def skin_from_url_def example_env_def Let_def convert_sel
        modern_skin_def Image_new_sel)
  have a1: "api_template example_env (\<lambda>x _ _. x) ''skins/''
         None (Some ''http://textures.example/texture/31f477eb1a7beee6'') None (Some False) True 0 1
         empty_cache
     = (Inr (StreamingResponse (convert modern_skin RGBA) ''image/png''),
        \<lparr>dirs = {[''tmp'', ''skins''], [''tmp'']},
         files = [[''tmp'', ''skins'', ''31f477eb1a7beeeo.png''] \<mapsto> convert modern_skin RGBA],
         render_calls = [(convert modern_skin RGBA, Some False, True)]\<rparr>)"
    by (simp add: api_template_def s1 f cache_filename_def strip_extension_def rsplit1_def
        modifier_filename_def joinpath_def path_parts_def empty_cache_def post_process_def
        store_def image_save_def mkdir_def Let_def)
  from last_character_collision[OF s1 s2 i1 i2, THEN conjunct2, THEN mp, OF a1]
  show ?thesis using s1 s2 i1 i2 a1 by simp
qed

section \<open>Post-processing\<close>

text \<open>
  C3: for a positive margin m (a request carries 1 to 8), the margin step turns an image of
  width w and height h into one of width w + 2m and height h + 2m; every pixel within m of
  an edge is (0, 0, 0, 0), fully transparent, and the pixel at (x, y) of the input is the
  pixel at (x + m, y + m) of the output. With no upscaling this is all the post-processing
  does.
\<close>

theorem margin_adds_transparent_border:
  assumes "0 < m"
  shows "width (add_margin im m) = width im + 2 * nat m
       \<and> height (add_margin im m) = height im + 2 * nat m
       \<and> wf_image (add_margin im m)
       \<and> (\<forall>x y. x < width im + 2 * nat m \<and> y < height im + 2 * nat m \<and>
                (x < nat m \<or> width im + nat m \<le> x \<or> y < nat m \<or> height im + nat m \<le> y) \<longrightarrow>
                getpixel (add_margin im m) (x, y) = Some (0, 0, 0, 0))
       \<and> (\<forall>x y. x < width im \<and> y < height im \<longrightarrow>
                getpixel (add_margin im m) (x + nat m, y + nat m) = getpixel im (x, y))
       \<and> (upscale \<le> 1 \<longrightarrow> post_process im m upscale = add_margin im m)"
proof (intro conjI allI impI)
  show "width (add_margin im m) = width im + 2 * nat m" by (rule add_margin_size[OF assms])
  show "height (add_margin im m) = height im + 2 * nat m" by (rule add_margin_size[OF assms])
  show "wf_image (add_margin im m)" by (rule wf_add_margin)
next
  fix x y
  assume "x < width im + 2 * nat m \<and> y < height im + 2 * nat m \<and>
          (x < nat m \<or> width im + nat m \<le> x \<or> y < nat m \<or> height im + nat m \<le> y)"
  then show "getpixel (add_margin im m) (x, y) = Some (0, 0, 0, 0)"
    using add_margin_border[OF assms, of x im y] by blast
next
  fix x y
  assume "x < width im \<and> y < height im"
  then show "getpixel (add_margin im m) (x + nat m, y + nat m) = getpixel im (x, y)"
    using add_margin_content[OF assms, of x im y] by blast
next
  assume "upscale \<le> 1"
  then show "post_process im m upscale = add_margin im m"
    using assms by (simp add: post_process_def Let_def)
qed

theorem margin_adds_transparent_border_witness:
  "(0::int) < 1
   \<and> width tiny_image = 2 \<and> height tiny_image = 1
   \<and> width (add_margin tiny_image 1) = 4 \<and> height (add_margin tiny_image 1) = 3
   \<and> getpixel (add_margin tiny_image 1) (0, 0) = Some (0, 0, 0, 0)
   \<and> getpixel (add_margin tiny_image 1) (3, 1) = Some (0, 0, 0, 0)
   \<and> getpixel (add_margin tiny_image 1) (1, 2) = Some (0, 0, 0, 0)
   \<and> getpixel (add_margin tiny_image 1) (1, 1) = Some (255, 0, 0, 255)
   \<and> getpixel (add_margin tiny_image 1) (2, 1) = Some (0, 0, 255, 255)
   \<and> post_process tiny_image 1 1 = add_margin tiny_image 1"
proof -
  have m: "(0::int) < 1" by simp
  note t = margin_adds_transparent_border[OF m, of tiny_image 1]
  have wh: "width tiny_image = 2" "height tiny_image = 1" by (simp_all add: tiny_image_def)
  from t have b: "\<And>x y. x < width tiny_image + 2 * nat 1 \<and> y < height tiny_image + 2 * nat 1 \<and>
                (x < nat 1 \<or> width tiny_image + nat 1 \<le> x \<or> y < nat 1 \<or> height tiny_image + nat 1 \<le> y) \<Longrightarrow>
                getpixel (add_margin tiny_image 1) (x, y) = Some (0, 0, 0, 0)"
    by blast
  from t have c: "\<And>x y. x < width tiny_image \<and> y < height tiny_image \<Longrightarrow>
                getpixel (add_margin tiny_image 1) (x + nat 1, y + nat 1) = getpixel tiny_image (x, y)"
    by blast
  have p1: "getpixel (add_margin tiny_image 1) (0, 0) = Some (0, 0, 0, 0)"
    by (rule b) (simp add: wh)
  have p2: "getpixel (add_margin tiny_image 1) (3, 1) = Some (0, 0, 0, 0)"
    by (rule b) (simp add: wh)
  have p3: "getpixel (add_margin tiny_image 1) (1, 2) = Some (0, 0, 0, 0)"
    by (rule b) (simp add: wh)
  have g: "getpixel tiny_image (0, 0) = Some (255, 0, 0, 255)"
    "getpixel tiny_image (1, 0) = Some (0, 0, 255, 255)"
    by (simp_all add: getpixel_def tiny_image_def)
  have p4: "getpixel (add_margin tiny_image 1) (1, 1) = Some (255, 0, 0, 255)"
    using c[of 0 0] g by (simp add: wh)
  have p5: "getpixel (add_margin tiny_image 1) (2, 1) = Some (0, 0, 255, 255)"
    using c[of 1 0] g by (simp add: wh numeral_2_eq_2)
  from t have s: "width (add_margin tiny_image 1) = 4" "height (add_margin tiny_image 1) = 3"
    "post_process tiny_image 1 1 = add_margin tiny_image 1"
    by (simp_all add: wh)
  show ?thesis using m wh s p1 p2 p3 p4 p5 by simp
qed

text \<open>
  C4: for an upscale factor u above 1 (a request carries 2 to 8), the upscale step turns an
  image of width w and height h into one of width w * u and height h * u, and the pixel at
  (x, y) of the output is the pixel at (x div u, y div u) of the input: a pixel of the
  input, unblended. With no margin this is all the post-processing does.
\<close>

theorem upscale_nearest_neighbour:
  assumes "1 < u"
  shows "width (upscale_image im u) = width im * nat u
       \<and> height (upscale_image im u) = height im * nat u
       \<and> wf_image (upscale_image im u)
       \<and> (\<forall>x y. x < width im * nat u \<and> y < height im * nat u \<longrightarrow>
                x div nat u < width im \<and> y div nat u < height im \<and>
                getpixel (upscale_image im u) (x, y) = getpixel im (x div nat u, y div nat u))
       \<and> (margin \<le> 0 \<longrightarrow> post_process im margin u = upscale_image im u)"
proof (intro conjI allI impI)
  show "width (upscale_image im u) = width im * nat u" by (rule upscale_image_size[OF assms])
  show "height (upscale_image im u) = height im * nat u" by (rule upscale_image_size[OF assms])
  show "wf_image (upscale_image im u)" by (rule wf_upscale_image)
next
  fix x y
  assume a: "x < width im * nat u \<and> y < height im * nat u"
  then show "x div nat u < width im" "y div nat u < height im"
    "getpixel (upscale_image im u) (x, y) = getpixel im (x div nat u, y div nat u)"
    using upscale_image_pixel[OF assms, of x im y] by blast+
next
  assume "margin \<le> 0"
  then show "post_process im margin u = upscale_image im u"
    using assms by (simp add: post_process_def Let_def)
qed

theorem upscale_nearest_neighbour_witness:
  "(1::int) < 2
   \<and> width (upscale_image tiny_image 2) = 4 \<and> height (upscale_image tiny_image 2) = 2
   \<and> getpixel (upscale_image tiny_image 2) (1, 1) = Some (255, 0, 0, 255)
   \<and> getpixel (upscale_image tiny_image 2) (2, 0) = Some (0, 0, 255, 255)
   \<and> getpixel tiny_image (0, 0) = Some (255, 0, 0, 255)
   \<and> getpixel tiny_image (1, 0) = Some (0, 0, 255, 255)
   \<and> post_process tiny_image 0 2 = upscale_image tiny_image 2"
proof -
  have u: "(1::int) < 2" by simp
  note t = upscale_nearest_neighbour[OF u, of tiny_image 0]
  have wh: "width tiny_image = 2" "height tiny_image = 1" by (simp_all add: tiny_image_def)
  from t have c: "\<And>x y. x < width tiny_image * nat 2 \<and> y < height tiny_image * nat 2 \<Longrightarrow>
      getpixel (upscale_image tiny_image 2) (x, y) = getpixel tiny_image (x div nat 2, y div nat 2)"
    by blast
  have g: "getpixel tiny_image (0, 0) = Some (255, 0, 0, 255)"
    "getpixel tiny_image (1, 0) = Some (0, 0, 255, 255)"
    by (simp_all add: getpixel_def tiny_image_def)
  have p1: "getpixel (upscale_image tiny_image 2) (1, 1) = Some (255, 0, 0, 255)"
    using c[of 1 1] g by (simp add: wh)
  have p2: "getpixel (upscale_image tiny_image 2) (2, 0) = Some (0, 0, 255, 255)"
    using c[of 2 0] g by (simp add: wh)
  from t have s: "width (upscale_image tiny_image 2) = 4" "height (upscale_image tiny_image 2) = 2"
    "post_process tiny_image 0 2 = upscale_image tiny_image 2"
    by (simp_all add: wh)
  show ?thesis using u s p1 p2 g by simp
qed

section \<open>Normalization and the sources\<close>

text \<open>
  C1: when the URL opens and its bytes decode to an image, the normalizer converts the
  image to RGBA, applies the legacy transform to it exactly when its size is (64, 32), and
  returns the result when its size is (64, 64); otherwise it fails with the size error.
  So every skin it returns is 64 by 64; it is in mode RGBA when the image was not of the
  legacy size, and also when it was, provided the transform (of the module
  \<^verbatim>\<open>renders\<close>) returns an RGBA image. For a skin URL and for the URL of a player,
  the handler goes on with that skin, or answers 404 with the size message.
\<close>

theorem skin_from_url_normalizes:
  assumes "urlopen env url = Inr file" and "Image_open env file = Inr opened"
  shows "skin_from_url env url =
           (if (width (normalized env opened), height (normalized env opened)) = (64, 64)
            then Inr (normalized env opened) else Inl ImageSizeError)
       \<and> (\<forall>skin. skin_from_url env url = Inr skin \<longrightarrow>
             width skin = 64 \<and> height skin = 64 \<and>
             ((width opened, height opened) \<noteq> (64, 32) \<longrightarrow> mode skin = RGBA) \<and>
             (mode (old_to_new_skin env (convert opened RGBA)) = RGBA \<longrightarrow> mode skin = RGBA))
       \<and> fetch_skin env (FromUrl url) slim =
           (if (width (normalized env opened), height (normalized env opened)) = (64, 64)
            then Continue (normalized env opened, slim)
            else Return (HTTPException 404 ''Image must be 64x64 pixels large''))
       \<and> fetch_skin env (FromPlayer url pot_slim) slim =
           (if (width (normalized env opened), height (normalized env opened)) = (64, 64)
            then Continue (normalized env opened, if slim = None then Some pot_slim else slim)
            else Return (HTTPException 404 ''Image must be 64x64 pixels large''))"
proof -
  note e = skin_from_url_fetched[OF assms]
  have "\<forall>skin. skin_from_url env url = Inr skin \<longrightarrow>
             width skin = 64 \<and> height skin = 64 \<and>
             ((width opened, height opened) \<noteq> (64, 32) \<longrightarrow> mode skin = RGBA) \<and>
             (mode (old_to_new_skin env (convert opened RGBA)) = RGBA \<longrightarrow> mode skin = RGBA)"
    unfolding e by (auto simp: normalized_def convert_sel split: if_splits)
  moreover have "fetch_skin env (FromUrl url) slim =
           (if (width (normalized env opened), height (normalized env opened)) = (64, 64)
            then Continue (normalized env opened, slim)
            else Return (HTTPException 404 ''Image must be 64x64 pixels large''))"
    by (simp add: fetch_skin_def e)
  moreover have "fetch_skin env (FromPlayer url pot_slim) slim =
           (if (width (normalized env opened), height (normalized env opened)) = (64, 64)
            then Continue (normalized env opened, if slim = None then Some pot_slim else slim)
            else Return (HTTPException 404 ''Image must be 64x64 pixels large''))"
    by (simp add: fetch_skin_def e)
  ultimately show ?thesis using e by blast
qed

theorem skin_from_url_normalizes_witness:
  "urlopen example_env ''http://textures.example/legacy.png'' = Inr [2]
   \<and> Image_open example_env [2] = Inr legacy_skin
   \<and> (mode legacy_skin, width legacy_skin, height legacy_skin) = (RGB, 64, 32)
   \<and> skin_from_url example_env ''http://textures.example/legacy.png''
       = Inr (old_to_new_skin example_env (convert legacy_skin RGBA))
   \<and> width (old_to_new_skin example_env (convert legacy_skin RGBA)) = 64
   \<and> height (old_to_new_skin example_env (convert legacy_skin RGBA)) = 64
   \<and> mode (old_to_new_skin example_env (convert legacy_skin RGBA)) = RGBA
   \<and> fetch_skin example_env (FromUrl ''http://textures.example/legacy.png'') (Some False)
       = Continue (old_to_new_skin example_env (convert legacy_skin RGBA), Some False)"
proof -
  have u: "urlopen example_env ''http://textures.example/legacy.png'' = Inr [2]"
    by (simp add: example_env_def)
  have i: "Image_open example_env [2] = Inr legacy_skin"
    by (simp add: example_env_def)
  have l: "(mode legacy_skin, width legacy_skin, height legacy_skin) = (RGB, 64, 32)"
    by (simp add: legacy_skin_def Image_new_sel)
  have o: "old_to_new_skin example_env = (\<lambda>im. paste (Image_new RGBA (64, 64)) im (0, 0))"
    by (simp add: example_env_def)
  have n: "normalized example_env legacy_skin = old_to_new_skin example_env (convert legacy_skin RGBA)"
    using l by (simp add: normalized_def)
  have s: "width (old_to_new_skin example_env (convert legacy_skin RGBA)) = 64"
    "height (old_to_new_skin example_env (convert legacy_skin RGBA)) = 64"
    "mode (old_to_new_skin example_env (convert legacy_skin RGBA)) = RGBA"
    by (simp_all add: o paste_sel Image_new_sel)
  note c = skin_from_url_normalizes[OF u i, of "Some False" False]
  from c have a: "skin_from_url example_env ''http://textures.example/legacy.png''
       = Inr (old_to_new_skin example_env (convert legacy_skin RGBA))"
    by (simp add: n s)
  from c have f: "fetch_skin example_env (FromUrl ''http://textures.example/legacy.png'') (Some False)
       = Continue (old_to_new_skin example_env (convert legacy_skin RGBA), Some False)"
    by (simp add: n s)
  show ?thesis using u i l a s f by simp
qed

text \<open>
  C8: a request whose player name, skin URL and base64 payload are each absent or empty is
  answered with the 404 response whose detail is
  \<open>You must specify a Player Name, Skin URL or Skin File.\<close>, and the state is left as it
  was: no file is written and the render function is not called.
\<close>

theorem missing_source_rejected:
  "(player = None \<or> player = Some []) \<and> (skin_url = None \<or> skin_url = Some []) \<and>
   (skin_base64 = None \<or> skin_base64 = Some []) \<longrightarrow>
     api_template env render_function path player skin_url skin_base64 slim overlay margin upscale st
       = (Inr (HTTPException 404 ''You must specify a Player Name, Skin URL or Skin File.''), st)"
  by (auto simp: api_template_def select_source_def truthy_def)

theorem missing_source_rejected_witness:
  "api_template example_env (\<lambda>x _ _. x) ''skins/'' (Some []) None None (Some False) True 0 1 empty_cache
     = (Inr (HTTPException 404 ''You must specify a Player Name, Skin URL or Skin File.''), empty_cache)"
  using missing_source_rejected[of "Some []" None None example_env "\<lambda>x _ _. x" "''skins/''"
      "Some False" True 0 1 empty_cache]
  by simp

text \<open>
  C5 fails on the base64 branch: on a cache miss, a payload that decodes
  to an image is handed to the render function as it was opened, with no conversion to
  RGBA, no upgrade and no size check. The URL branches go through \<open>skin_from_url\<close>.
\<close>

theorem base64_skin_bypasses_normalizer:
  assumes "truthy player = None" and "truthy skin_url = None" and "truthy skin_base64 = Some b64"
    and "files st (cache_file path (cache_filename (identifier_tail b64) overlay margin upscale)) = None"
    and "decode_payload env b64 = Inr file" and "Image_open env file = Inr skin"
  shows "fetch_skin env (FromBase64 b64) slim = Continue (skin, slim)
    \<and> render_calls (snd (api_template env rf path player skin_url skin_base64 slim
                             overlay margin upscale st))
        = render_calls st @ [(skin, slim, overlay)]"
proof -
  have f: "fetch_skin env (FromBase64 b64) slim = Continue (skin, slim)"
    using assms(5,6) by (simp add: fetch_skin_def decode_payload_def)
  have "render_calls (snd (api_template env rf path player skin_url skin_base64 slim
                             overlay margin upscale st))
        = render_calls st @ [(skin, slim, overlay)]"
    unfolding api_template_miss[OF select_source_base64[OF assms(1,2,3)] assms(4)] f
    using render_calls_store[of "st\<lparr>render_calls := render_calls st @ [(skin, slim, overlay)]\<rparr>"]
    by (auto simp: Let_def split: prod.splits option.splits) (metis snd_conv)+
  with f show ?thesis by simp
qed

theorem base64_skin_bypasses_normalizer_witness:
  "truthy None = None \<and> truthy (Some ''Aw=='') = Some ''Aw==''
   \<and> files empty_cache (cache_file ''skins/'' (cache_filename (identifier_tail ''Aw=='') True 0 1)) = None
   \<and> decode_payload example_env ''Aw=='' = Inr [3]
   \<and> Image_open example_env [3] = Inr tiny_image
   \<and> (mode tiny_image, width tiny_image, height tiny_image) = (RGB, 2, 1)
   \<and> render_calls (snd (skin_route example_env None None (Some ''Aw=='') (Some False) True 0 1
                          empty_cache))
       = [(tiny_image, Some False, True)]
   \<and> skin_route example_env None None (Some ''Aw=='') (Some False) True 0 1 empty_cache
       = (Inr (StreamingResponse tiny_image ''image/png''),
          \<lparr>dirs = {[''tmp'', ''skins''], [''tmp'']},
           files = [[''tmp'', ''skins'', ''Aw=o.png''] \<mapsto> tiny_image],
           render_calls = [(tiny_image, Some False, True)]\<rparr>)"
proof -
  have t: "truthy None = None" "truthy (Some ''Aw=='') = Some ''Aw==''"
    by (simp_all add: truthy_def)
  have fn: "cache_filename (identifier_tail ''Aw=='') True 0 1 = ''Aw=o.png''"
    by (simp add: identifier_tail_def py_slice_def slice_index_def cache_filename_def
        strip_extension_def rsplit1_def modifier_filename_def)
  have cf: "cache_file ''skins/'' ''Aw=o.png'' = [''tmp'', ''skins'', ''Aw=o.png'']"
    by (simp add: cache_file_def joinpath_def path_parts_def)
  have miss: "files empty_cache
      (cache_file ''skins/'' (cache_filename (identifier_tail ''Aw=='') True 0 1)) = None"
    by (simp add: empty_cache_def)
  have d: "decode_payload example_env ''Aw=='' = Inr [3]"
    by (simp add: decode_payload_def example_env_def)
  have i: "Image_open example_env [3] = Inr tiny_image"
    by (simp add: example_env_def)
  have m: "(mode tiny_image, width tiny_image, height tiny_image) = (RGB, 2, 1)"
    by (simp add: tiny_image_def)
  note c = base64_skin_bypasses_normalizer[OF t(1) t(1) t(2) miss d i,
      of "Some False" "\<lambda>x _ _. x"]
  from c have r: "render_calls (snd (skin_route example_env None None (Some ''Aw=='') (Some False)
      True 0 1 empty_cache)) = [(tiny_image, Some False, True)]"
    by (simp add: skin_route_def empty_cache_def)
  from c have f: "fetch_skin example_env (FromBase64 ''Aw=='') (Some False)
      = Continue (tiny_image, Some False)" by simp
  have s: "select_source example_env None None (Some ''Aw=='')
      = Continue (identifier_tail ''Aw=='', FromBase64 ''Aw=='')"
    by (rule select_source_base64[OF t(1) t(1) t(2)])
  have a: "skin_route example_env None None (Some ''Aw=='') (Some False) True 0 1 empty_cache
       = (Inr (StreamingResponse tiny_image ''image/png''),
          \<lparr>dirs = {[''tmp'', ''skins''], [''tmp'']},
           files = [[''tmp'', ''skins'', ''Aw=o.png''] \<mapsto> tiny_image],
           render_calls = [(tiny_image, Some False, True)]\<rparr>)"
    unfolding skin_route_def api_template_miss[OF s miss] f fn cf
    by (simp add: empty_cache_def post_process_def store_def image_save_def mkdir_def
        joinpath_def path_parts_def)
  show ?thesis using t miss d i m r a by simp
qed

text \<open>
  C9 fails where the decoded bytes are no image: the handler guards the opening of the image
  with \<^verbatim>\<open>except UrlError\<close>, which the imaging library never raises, so the
  library's exception leaves the handler and no 404 response is built.
\<close>

theorem base64_image_error_unhandled:
  assumes "truthy player = None" and "truthy skin_url = None" and "truthy skin_base64 = Some b64"
    and "files st (cache_file path (cache_filename (identifier_tail b64) overlay margin upscale)) = None"
    and "decode_payload env b64 = Inr file" and "Image_open env file = Inl e"
  shows "api_template env rf path player skin_url skin_base64 slim overlay margin upscale st
           = (Inl (Lib e), st)"
proof -
  have f: "fetch_skin env (FromBase64 b64) slim = Raise (Lib e)"
    using assms(5,6) by (simp add: fetch_skin_def decode_payload_def)
  show ?thesis
    unfolding api_template_miss[OF select_source_base64[OF assms(1,2,3)] assms(4)] f by simp
qed

theorem base64_image_error_unhandled_witness:
  "truthy None = None \<and> truthy (Some ''BA=='') = Some ''BA==''
   \<and> files empty_cache (cache_file ''skins/'' (cache_filename (identifier_tail ''BA=='') True 0 1)) = None
   \<and> decode_payload example_env ''BA=='' = Inr [4]
   \<and> Image_open example_env [4] = Inl UnidentifiedImageError
   \<and> skin_route example_env None None (Some ''BA=='') (Some False) True 0 1 empty_cache
       = (Inl (Lib UnidentifiedImageError), empty_cache)"
proof -
  have t: "truthy None = None" "truthy (Some ''BA=='') = Some ''BA==''"
    by (simp_all add: truthy_def)
  have miss: "files empty_cache
      (cache_file ''skins/'' (cache_filename (identifier_tail ''BA=='') True 0 1)) = None"
    by (simp add: empty_cache_def)
  have d: "decode_payload example_env ''BA=='' = Inr [4]"
    by (simp add: decode_payload_def example_env_def)
  have i: "Image_open example_env [4] = Inl UnidentifiedImageError"
    by (simp add: example_env_def)
  from base64_image_error_unhandled[OF t(1) t(1) t(2) miss d i, of "\<lambda>x _ _. x" "Some False"]
  show ?thesis using t miss d i by (simp add: skin_route_def)
qed

end
